theory Spec2Isabelle
  imports Main "HOL-Library.Char_ord" "HOL-Library.List_Lexorder" "HOL-Library.Sublist"
    "HOL-Library.Multiset"
begin

section \<open>The documentation model read by ApiDocsPrinter.ts\<close>

text \<open>
  Modelled from the spec: the declarations of \<^verbatim>\<open>./types\<close> (ApiDoc, InterfaceInfo,
  MarkdownPrinter and the types of members, dependent types and links) are not among the
  sources. The records below carry the fields that \<^verbatim>\<open>ApiDocsPrinter.ts\<close> reads, together
  with the identifier the spec's data model gives to every entity. Strings are \<open>string\<close>
  with the lexicographic order on character codes, which is how the source's \<^verbatim>\<open><\<close> compares
  strings. A source-location reference is opaque to the printer; it is only handed to the
  output surface.
\<close>

type_synonym srcref = "string \<times> nat"

text \<open>A link is a reference to another entity's identifier.\<close>

record TypeLink =
  id' :: nat

text \<open>A dependent type (\<^verbatim>\<open>type\<close> in \<^verbatim>\<open>addInterfaceTypes\<close>).\<close>

record TypeInfo =
  id' :: nat
  name :: string
  path :: string
  docs :: "string list"
  text' :: string
  links :: "TypeLink list"
  src :: srcref

text \<open>The kind of a member: \<^verbatim>\<open>member.type === 'method'\<close> marks a callable one.\<close>

datatype member_kind = Prop | Method

record FieldInfo =
  type' :: member_kind
  name :: string
  path :: string
  docs :: "string list"
  text' :: string
  links :: "TypeLink list"
  src :: srcref

text \<open>
  Arrays are objects of the source language: \<^verbatim>\<open>apiType.dependentTypes\<close> is a reference, and
  \<^verbatim>\<open>Array.prototype.sort\<close> sorts the array it is called on in place. The array of dependent
  types is therefore kept in a store and an interface type holds its address. It is the only
  array of the model that reaches a mutating method (through \<^verbatim>\<open>slice\<close>); every other
  array is only read (\<^verbatim>\<open>map\<close>, \<^verbatim>\<open>filter\<close>, \<^verbatim>\<open>some\<close>, \<^verbatim>\<open>join\<close>, spread, \<^verbatim>\<open>for ... of\<close>)
  and is modelled by its value.
\<close>

type_synonym addr = nat

record InterfaceInfo =
  id' :: nat
  name :: string
  src :: srcref
  members :: "FieldInfo list"
  dependentTypes :: addr

record ApiDoc =
  id' :: string
  name :: string
  description :: string
  src :: srcref
  interfaceInfos :: "InterfaceInfo list"

text \<open>
  The store: the arrays allocated so far live at the addresses below \<open>nxt\<close>; a new array is
  allocated at \<open>nxt\<close>.
\<close>

record store =
  arr :: "addr \<Rightarrow> TypeInfo list"
  nxt :: addr

text \<open>\<^verbatim>\<open>a.slice()\<close>: a new array with the elements of \<open>a\<close>; the result is its address.\<close>

definition slice :: "addr \<Rightarrow> store \<Rightarrow> addr \<times> store" where
  "slice a s = (nxt s, s\<lparr>arr := (arr s)(nxt s := arr s a), nxt := Suc (nxt s)\<rparr>)"

subsection \<open>The sort helper and the sort of the language\<close>

text \<open>
  Modelled from the spec: \<^verbatim>\<open>./sortSelector\<close> is not among the sources. Given a key
  extraction function it yields a two-argument comparator that orders ascending by the
  extracted key in the natural order of the keys.
\<close>

definition sortSelector :: "('a \<Rightarrow> 'k::linorder) \<Rightarrow> 'a \<Rightarrow> 'a \<Rightarrow> int" where
  "sortSelector selector a b =
     (let aV = selector a; bV = selector b
      in if aV < bV then - 1 else if aV > bV then 1 else 0)"

text \<open>
  \<^verbatim>\<open>Array.prototype.sort(cmp)\<close> is a stable sort: elements that compare equal keep their
  order. It is modelled by insertion from the right, each element being placed before the
  first element of the sorted rest that it does not exceed.
\<close>

fun insertBy :: "('a \<Rightarrow> 'a \<Rightarrow> int) \<Rightarrow> 'a \<Rightarrow> 'a list \<Rightarrow> 'a list" where
  "insertBy cmp x [] = [x]"
| "insertBy cmp x (y # ys) = (if cmp x y \<le> 0 then x # y # ys else y # insertBy cmp x ys)"

fun sortBy :: "('a \<Rightarrow> 'a \<Rightarrow> int) \<Rightarrow> 'a list \<Rightarrow> 'a list" where
  "sortBy cmp [] = []"
| "sortBy cmp (x # xs) = insertBy cmp x (sortBy cmp xs)"

text \<open>\<^verbatim>\<open>a.sort(cmp)\<close> on the array at address \<open>a\<close>: sorts it in place.\<close>

definition sort_at :: "(TypeInfo \<Rightarrow> TypeInfo \<Rightarrow> int) \<Rightarrow> addr \<Rightarrow> store \<Rightarrow> store" where
  "sort_at cmp a s = s\<lparr>arr := (arr s)(a := sortBy cmp (arr s a))\<rparr>"

subsection \<open>The output surface\<close>

text \<open>
  Modelled from the spec: the MarkdownPrinter implementations are not among the sources.
  The emitting calls (\<^verbatim>\<open>header\<close>, \<^verbatim>\<open>paragraph\<close>, \<^verbatim>\<open>text\<close>, \<^verbatim>\<open>code\<close>) each append one
  event to the document, and \<^verbatim>\<open>toBuffer\<close> returns the events in the order of the calls. The
  link resolvers (\<^verbatim>\<open>srcLink\<close>, \<^verbatim>\<open>pageLink\<close>, \<^verbatim>\<open>headerLink\<close>, \<^verbatim>\<open>indexLink\<close>) are
  parameters: functions from their arguments to the rendered link.
\<close>

type_synonym entry = "FieldInfo + TypeInfo"

datatype event =
    Header nat string "string option"
  | Paragraph "string list"
  | Text string
  | Code entry

record MarkdownPrinter =
  srcLink :: "srcref \<Rightarrow> string option \<Rightarrow> string"
  pageLink :: "string \<Rightarrow> string"
  headerLink :: "string \<Rightarrow> string \<Rightarrow> string"
  indexLink :: string

text \<open>\<^verbatim>\<open>xs.join(sep)\<close>\<close>

fun join :: "string \<Rightarrow> string list \<Rightarrow> string" where
  "join sep [] = []"
| "join sep [x] = x"
| "join sep (x # y # ys) = x @ sep @ join sep (y # ys)"

section \<open>ApiDocPrinter\<close>

text \<open>\<^verbatim>\<open>apiDisplayName\<close>: \<^verbatim>\<open>api.name.replace(/ApiRef$/, '')\<close>.\<close>

definition apiDisplayName :: "ApiDoc \<Rightarrow> string" where
  "apiDisplayName api =
     (let n = ApiDoc.name api
      in if suffix ''ApiRef'' n then take (length n - length ''ApiRef'') n else n)"

subsection \<open>printApiIndex\<close>

text \<open>The links of the implemented types: \<^verbatim>\<open>api.interfaceInfos.map(i => ...)\<close>.\<close>

definition typeLinks :: "MarkdownPrinter \<Rightarrow> ApiDoc \<Rightarrow> string list" where
  "typeLinks printer api =
     map (\<lambda>i. ''['' @ InterfaceInfo.name i @ '']('' @ pageLink printer (InterfaceInfo.name i) @ '')'')
       (interfaceInfos api)"

text \<open>The text of the paragraph of implemented types.\<close>

definition implementedTypes :: "MarkdownPrinter \<Rightarrow> ApiDoc \<Rightarrow> string" where
  "implementedTypes printer api =
     (let typeLinks = typeLinks printer api
      in ''Implemented type'' @ (if length typeLinks > 1 then ''s'' else '''') @ '': ''
           @ join '', '' typeLinks)"

text \<open>The body of the loop over \<^verbatim>\<open>apiDocs\<close>: the four calls made for one entry.\<close>

definition apiSection :: "MarkdownPrinter \<Rightarrow> ApiDoc \<Rightarrow> event list" where
  "apiSection printer api =
     [Header 3 (apiDisplayName api) (Some (ApiDoc.id' api)),
      Paragraph [description api],
      Paragraph [implementedTypes printer api],
      Paragraph [''ApiRef: '' @ srcLink printer (ApiDoc.src api) (Some (ApiDoc.name api))]]"

definition printApiIndex :: "MarkdownPrinter \<Rightarrow> ApiDoc list \<Rightarrow> event list" where
  "printApiIndex printer apiDocs =
     Header 1 ''Backstage Core Utility APIs'' None
     # Paragraph
         [''The following is a list of all Utility APIs defined by `@backstage/core`.'',
          ''They are available to use by plugins and components, and can be accessed '',
          ''using the `useApi` hook, also provided by `@backstage/core`.'',
          ''For more information, see https://github.com/backstage/backstage/blob/master/docs/api/utility-apis.md.'']
     # concat (map (apiSection printer) apiDocs)"

subsection \<open>printInterface\<close>

text \<open>The link to one implementer: the function mapped over the filtered entries.\<close>

definition apiLink :: "MarkdownPrinter \<Rightarrow> ApiDoc \<Rightarrow> string" where
  "apiLink printer ad =
     (let link = indexLink printer @ headerLink printer (apiDisplayName ad) (ApiDoc.id' ad)
      in ''['' @ ApiDoc.name ad @ '']('' @ link @ '')'')"

text \<open>\<^verbatim>\<open>apiLinks\<close>: the entries are filtered, then mapped to their links.\<close>

definition apiLinks :: "MarkdownPrinter \<Rightarrow> InterfaceInfo \<Rightarrow> ApiDoc list \<Rightarrow> string list" where
  "apiLinks printer apiType apiDocs =
     map (apiLink printer)
       (filter (\<lambda>ad. list_ex (\<lambda>i. InterfaceInfo.name i = InterfaceInfo.name apiType)
                        (interfaceInfos ad))
          apiDocs)"

text \<open>
  The paragraph of implementers, for the value \<open>lnks\<close> of \<^verbatim>\<open>apiLinks\<close>. In the first branch
  the array is interpolated into the template string, which joins its elements with a comma.
\<close>

definition implementers :: "string list \<Rightarrow> event list" where
  "implementers lnks =
     (if length lnks = 1
      then [Paragraph [''The following Utility API implements this type: '' @ join '','' lnks]]
      else Paragraph [''The following Utility APIs implement this type:'']
           # map (\<lambda>link. Text (''  - '' @ link)) lnks)"

definition addInterfaceMembers :: "MarkdownPrinter \<Rightarrow> InterfaceInfo \<Rightarrow> event list" where
  "addInterfaceMembers printer apiType =
     concat (map (\<lambda>member.
         Header 3 (FieldInfo.name member @ (if type' member = Method then ''()'' else ''''))
           (Some (FieldInfo.path member))
         # map Text (FieldInfo.docs member)
         @ [Code (Inl member)])
       (members apiType))"

text \<open>Name, path and links of an element of \<^verbatim>\<open>[...apiType.members, ...apiType.dependentTypes]\<close>.\<close>

definition entryName :: "entry \<Rightarrow> string" where
  "entryName e = (case e of Inl m \<Rightarrow> FieldInfo.name m | Inr t \<Rightarrow> TypeInfo.name t)"

definition entryPath :: "entry \<Rightarrow> string" where
  "entryPath e = (case e of Inl m \<Rightarrow> FieldInfo.path m | Inr t \<Rightarrow> TypeInfo.path t)"

definition entryLinks :: "entry \<Rightarrow> TypeLink list" where
  "entryLinks e = (case e of Inl m \<Rightarrow> FieldInfo.links m | Inr t \<Rightarrow> TypeInfo.links t)"

definition usageLink :: "MarkdownPrinter \<Rightarrow> entry \<Rightarrow> string" where
  "usageLink printer e =
     ''['' @ entryName e @ '']('' @ headerLink printer (entryName e) (entryPath e) @ '')''"

text \<open>
  \<^verbatim>\<open>usageLinks\<close> for the dependent type \<open>type\<close>, from the values of \<^verbatim>\<open>apiType.members\<close>
  and of \<^verbatim>\<open>apiType.dependentTypes\<close> at the time of the iteration.
\<close>

definition usageLinks ::
  "MarkdownPrinter \<Rightarrow> FieldInfo list \<Rightarrow> TypeInfo list \<Rightarrow> TypeInfo \<Rightarrow> string list" where
  "usageLinks printer ms dts type =
     map (usageLink printer)
       (filter (\<lambda>member. list_ex (\<lambda>link. TypeLink.id' link = TypeInfo.id' type) (entryLinks member))
          (map Inl ms @ map Inr dts))"

text \<open>The body of the loop of \<^verbatim>\<open>addInterfaceTypes\<close>.\<close>

definition typeSection ::
  "MarkdownPrinter \<Rightarrow> FieldInfo list \<Rightarrow> TypeInfo list \<Rightarrow> TypeInfo \<Rightarrow> event list" where
  "typeSection printer ms dts type =
     Header 3 (TypeInfo.name type) (Some (TypeInfo.path type))
     # map Text (TypeInfo.docs type)
     @ [Code (Inr type),
        Paragraph [''Defined at '' @ srcLink printer (TypeInfo.src type) None @ ''.'']]
     @ (let usageLinks = usageLinks printer ms dts type
        in if length usageLinks \<noteq> 0
           then [Paragraph [''Referenced by: '' @ join '', '' usageLinks @ ''.'']]
           else [])"

text \<open>
  \<^verbatim>\<open>addInterfaceTypes\<close>: the array of dependent types is copied, the copy is sorted in place,
  and the loop runs over the sorted copy. Each iteration reads \<^verbatim>\<open>apiType.dependentTypes\<close>
  again for the usage links; nothing in the loop writes to the store.
\<close>

definition addInterfaceTypes ::
  "MarkdownPrinter \<Rightarrow> InterfaceInfo \<Rightarrow> store \<Rightarrow> event list \<times> store" where
  "addInterfaceTypes printer apiType s =
     (let (b, s1) = slice (dependentTypes apiType) s;
          s2 = sort_at (sortSelector TypeInfo.name) b s1
      in (concat (map (typeSection printer (members apiType) (arr s2 (dependentTypes apiType)))
                    (arr s2 b)),
          s2))"

definition printInterface ::
  "MarkdownPrinter \<Rightarrow> InterfaceInfo \<Rightarrow> ApiDoc list \<Rightarrow> store \<Rightarrow> event list \<times> store" where
  "printInterface printer apiType apiDocs s =
     (let top =
            [Header 1 (InterfaceInfo.name apiType) None,
             Paragraph [''The '' @ InterfaceInfo.name apiType @ '' type is defined at ''
                        @ srcLink printer (InterfaceInfo.src apiType) None @ ''.'']]
            @ implementers (apiLinks printer apiType apiDocs)
            @ [Header 2 ''Members'' None]
            @ addInterfaceMembers printer apiType
      in if length (arr s (dependentTypes apiType)) \<noteq> 0
         then (let (types, s') = addInterfaceTypes printer apiType s
               in (top
                   @ [Header 2 ''Supporting types'' None,
                      Paragraph [''These types are part of the API declaration, but may not be unique to this API.'']]
                   @ types,
                   s'))
         else (top, s))"

section \<open>Reading a rendered document\<close>

text \<open>The headings of one level.\<close>

definition isHeaderAt :: "nat \<Rightarrow> event \<Rightarrow> bool" where
  "isHeaderAt lvl e = (case e of Header l _ _ \<Rightarrow> l = lvl | _ \<Rightarrow> False)"

text \<open>The dependent types whose code was rendered, in the order of rendering.\<close>

definition codeTypes :: "event list \<Rightarrow> TypeInfo list" where
  "codeTypes doc = concat (map (\<lambda>e. case e of Code (Inr t) \<Rightarrow> [t] | _ \<Rightarrow> []) doc)"

text \<open>A paragraph whose text starts with \<^verbatim>\<open>Referenced by: \<close>.\<close>

definition isReferencedBy :: "event \<Rightarrow> bool" where
  "isReferencedBy e =
     (case e of Paragraph ps \<Rightarrow> prefix ''Referenced by: '' (concat ps) | _ \<Rightarrow> False)"

text \<open>
  The part of an interface page between its first two events (title and source paragraph)
  and the heading of the members.
\<close>

definition implementerEvents :: "event list \<Rightarrow> event list" where
  "implementerEvents doc = takeWhile (\<lambda>e. e \<noteq> Header 2 ''Members'' None) (drop 2 doc)"

text \<open>The two phrasings of the paragraph of implemented types.\<close>

definition singularPhrasing :: "string \<Rightarrow> bool" where
  "singularPhrasing str = prefix ''Implemented type: '' str"

definition pluralPhrasing :: "string \<Rightarrow> bool" where
  "pluralPhrasing str = prefix ''Implemented types: '' str"

text \<open>
  The implementers of a type as the specification words them: the entries whose list of
  interface references contains the identifier of the type.
\<close>

definition specImplementers :: "InterfaceInfo \<Rightarrow> ApiDoc list \<Rightarrow> ApiDoc list" where
  "specImplementers apiType apiDocs =
     filter (\<lambda>a. InterfaceInfo.id' apiType \<in> set (map InterfaceInfo.id' (interfaceInfos a))) apiDocs"

section \<open>Sample inputs\<close>

definition samplePrinter :: MarkdownPrinter where
  "samplePrinter =
     \<lparr>srcLink = (\<lambda>loc label. ''['' @ (case label of None \<Rightarrow> fst loc | Some l \<Rightarrow> l) @ '']('' @ fst loc @ '')''),
      pageLink = (\<lambda>n. ''./'' @ n @ ''.md''),
      headerLink = (\<lambda>label anchor. ''#'' @ anchor @ ''-'' @ label),
      indexLink = ''./README.md''\<rparr>"

definition fooType :: InterfaceInfo where
  "fooType = \<lparr>InterfaceInfo.id' = 1, name = ''Foo'', src = (''Foo.ts'', 1), members = [],
              dependentTypes = 0\<rparr>"

text \<open>Another interface type that is also named Foo.\<close>

definition otherFoo :: InterfaceInfo where
  "otherFoo = \<lparr>InterfaceInfo.id' = 2, name = ''Foo'', src = (''other/Foo.ts'', 1), members = [],
               dependentTypes = 1\<rparr>"

definition fooApi :: ApiDoc where
  "fooApi = \<lparr>ApiDoc.id' = ''x'', name = ''FooApiRef'', description = ''d'', src = (''FooApi.ts'', 3),
             interfaceInfos = [fooType]\<rparr>"

definition otherFooApi :: ApiDoc where
  "otherFooApi = \<lparr>ApiDoc.id' = ''y'', name = ''OtherFooApiRef'', description = '''',
                  src = (''OtherFooApi.ts'', 3), interfaceInfos = [otherFoo]\<rparr>"

definition noTypeApi :: ApiDoc where
  "noTypeApi = \<lparr>ApiDoc.id' = ''z'', name = ''BareApiRef'', description = '''',
                src = (''Bare.ts'', 1), interfaceInfos = []\<rparr>"

definition sampleType :: "nat \<Rightarrow> string \<Rightarrow> nat list \<Rightarrow> TypeInfo" where
  "sampleType i n ls =
     \<lparr>TypeInfo.id' = i, name = n, path = n, docs = [], text' = ''type '' @ n,
      links = map (\<lambda>l. \<lparr>TypeLink.id' = l\<rparr>) ls, src = (''types.ts'', i)\<rparr>"

definition zooMember :: FieldInfo where
  "zooMember = \<lparr>type' = Method, name = ''feed'', path = ''feed'', docs = [''Feeds.''],
                text' = ''feed(): Mango'', links = [\<lparr>TypeLink.id' = 12\<rparr>],
                src = (''Zoo.ts'', 2)\<rparr>"

text \<open>
  An interface with three dependent types, discovered in the order Zebra, Apple, Mango. Its
  member refers to Mango, Mango refers to Apple, and nothing refers to Zebra.
\<close>

definition zooType :: InterfaceInfo where
  "zooType = \<lparr>InterfaceInfo.id' = 3, name = ''Zoo'', src = (''Zoo.ts'', 1), members = [zooMember],
              dependentTypes = 0\<rparr>"

definition zooApi :: ApiDoc where
  "zooApi = \<lparr>ApiDoc.id' = ''zoo'', name = ''zooApiRef'', description = ''The zoo.'',
             src = (''ZooApi.ts'', 5), interfaceInfos = [zooType]\<rparr>"

definition zooStore :: store where
  "zooStore =
     \<lparr>arr = (\<lambda>_. [])(0 := [sampleType 10 ''Zebra'' [], sampleType 11 ''Apple'' [],
                              sampleType 12 ''Mango'' [11]]),
      nxt = 1\<rparr>"

definition emptyStore :: store where
  "emptyStore = \<lparr>arr = (\<lambda>_. []), nxt = 2\<rparr>"

section \<open>Auxiliary facts\<close>

subsection \<open>The sort\<close>

lemma insertBy_sortSelector: "insertBy (sortSelector f) x ys = insort_key f x ys"
  by (induction ys) (auto simp: sortSelector_def Let_def)

lemma sortBy_sortSelector: "sortBy (sortSelector f) xs = sort_key f xs"
  by (induction xs) (simp_all add: insertBy_sortSelector)

subsection \<open>The store after addInterfaceTypes\<close>

text \<open>The sort writes to the array it is called on; only the copy keeps the input as it was.\<close>

lemma sort_at_writes: "arr (sort_at cmp a s) a = sortBy cmp (arr s a)"
  by (simp add: sort_at_def)

lemma addInterfaceTypes_frame:
  "a < nxt s \<Longrightarrow> arr (snd (addInterfaceTypes P t s)) a = arr s a"
  by (simp add: addInterfaceTypes_def slice_def sort_at_def Let_def)

lemma addInterfaceTypes_copy:
  "arr (snd (addInterfaceTypes P t s)) (nxt s) =
     sortBy (sortSelector TypeInfo.name) (arr s (dependentTypes t))"
  by (simp add: addInterfaceTypes_def slice_def sort_at_def Let_def)

lemma addInterfaceTypes_nxt: "nxt (snd (addInterfaceTypes P t s)) = Suc (nxt s)"
  by (simp add: addInterfaceTypes_def slice_def sort_at_def Let_def)

lemma addInterfaceTypes_events:
  "fst (addInterfaceTypes P t s) =
     concat (map (typeSection P (members t)
                    (if dependentTypes t = nxt s
                     then sortBy (sortSelector TypeInfo.name) (arr s (dependentTypes t))
                     else arr s (dependentTypes t)))
               (sortBy (sortSelector TypeInfo.name) (arr s (dependentTypes t))))"
  by (simp add: addInterfaceTypes_def slice_def sort_at_def Let_def)

subsection \<open>The two results of printInterface\<close>

lemma printInterface_events:
  "fst (printInterface P t ads s) =
     [Header 1 (InterfaceInfo.name t) None,
      Paragraph [''The '' @ InterfaceInfo.name t @ '' type is defined at ''
                 @ srcLink P (InterfaceInfo.src t) None @ ''.'']]
     @ implementers (apiLinks P t ads)
     @ [Header 2 ''Members'' None]
     @ addInterfaceMembers P t
     @ (if arr s (dependentTypes t) = [] then []
        else [Header 2 ''Supporting types'' None,
              Paragraph [''These types are part of the API declaration, but may not be unique to this API.'']]
             @ fst (addInterfaceTypes P t s))"
  by (simp add: printInterface_def Let_def split: prod.split)

lemma printInterface_store:
  "snd (printInterface P t ads s) =
     (if arr s (dependentTypes t) = [] then s else snd (addInterfaceTypes P t s))"
  by (simp add: printInterface_def Let_def split: prod.split)

subsection \<open>Rendered code blocks\<close>

lemma codeTypes_simps:
  "codeTypes [] = []"
  "codeTypes (Header l x a # es) = codeTypes es"
  "codeTypes (Paragraph ps # es) = codeTypes es"
  "codeTypes (Text x # es) = codeTypes es"
  "codeTypes (Code (Inl m) # es) = codeTypes es"
  "codeTypes (Code (Inr ty) # es) = ty # codeTypes es"
  by (simp_all add: codeTypes_def)

lemma codeTypes_append: "codeTypes (xs @ ys) = codeTypes xs @ codeTypes ys"
  by (simp add: codeTypes_def)

lemma codeTypes_Texts: "codeTypes (map (\<lambda>x. Text (f x)) ds @ es) = codeTypes es"
  by (induction ds) (simp_all add: codeTypes_simps)

lemma codeTypes_typeSection: "codeTypes (typeSection P ms dts ty) = [ty]"
  using codeTypes_Texts[of "\<lambda>x. x"]
  by (simp add: typeSection_def codeTypes_simps Let_def)

lemma codeTypes_sections: "codeTypes (concat (map (typeSection P ms dts) xs)) = xs"
  by (induction xs) (simp_all add: codeTypes_append codeTypes_typeSection codeTypes_simps)

lemma codeTypes_concat_Nil:
  "(\<And>x. codeTypes (f x) = []) \<Longrightarrow> codeTypes (concat (map f xs)) = []"
  by (induction xs) (simp_all add: codeTypes_simps codeTypes_append)

lemma codeTypes_member:
  "codeTypes (Header 3 h (Some p) # map Text ds @ [Code (Inl m)]) = []"
  using codeTypes_Texts[of "\<lambda>x. x" ds "[Code (Inl m)]"] by (simp add: codeTypes_simps)

lemma codeTypes_members: "codeTypes (addInterfaceMembers P t) = []"
  unfolding addInterfaceMembers_def
  by (rule codeTypes_concat_Nil) (rule codeTypes_member)

lemma codeTypes_implementers: "codeTypes (implementers ls) = []"
  using codeTypes_Texts[of "\<lambda>link. ''  - '' @ link" ls "[]"]
  by (simp add: implementers_def codeTypes_simps)

lemma codeTypes_types:
  "codeTypes (fst (addInterfaceTypes P t s)) =
     sortBy (sortSelector TypeInfo.name) (arr s (dependentTypes t))"
  unfolding addInterfaceTypes_events by (rule codeTypes_sections)

lemma codeTypes_page:
  "codeTypes (fst (printInterface P t ads s)) =
     sortBy (sortSelector TypeInfo.name) (arr s (dependentTypes t))"
  by (simp add: printInterface_events codeTypes_append codeTypes_implementers codeTypes_members
        codeTypes_simps codeTypes_types)

subsection \<open>Headings\<close>

lemma filter_concat_Nil:
  "(\<And>x. filter Q (f x) = []) \<Longrightarrow> filter Q (concat (map f xs)) = []"
  by (induction xs) simp_all

lemma isHeaderAt_simps:
  "isHeaderAt lvl (Header l x a) = (l = lvl)"
  "isHeaderAt lvl (Paragraph ps) = False"
  "isHeaderAt lvl (Text x) = False"
  "isHeaderAt lvl (Code c) = False"
  by (simp_all add: isHeaderAt_def)

lemma headers2_implementers: "filter (isHeaderAt 2) (implementers ls) = []"
  by (simp add: implementers_def isHeaderAt_simps filter_empty_conv image_iff)

lemma headers2_members: "filter (isHeaderAt 2) (addInterfaceMembers P t) = []"
  unfolding addInterfaceMembers_def
  by (rule filter_concat_Nil) (simp add: isHeaderAt_simps filter_empty_conv image_iff)

lemma headers2_typeSection: "filter (isHeaderAt 2) (typeSection P ms dts ty) = []"
  by (simp add: typeSection_def Let_def isHeaderAt_simps filter_empty_conv image_iff)

lemma headers2_types: "filter (isHeaderAt 2) (fst (addInterfaceTypes P t s)) = []"
  unfolding addInterfaceTypes_events
  by (rule filter_concat_Nil) (rule headers2_typeSection)

lemma headers3_typeSection:
  "filter (isHeaderAt 3) (typeSection P ms dts ty) =
     [Header 3 (TypeInfo.name ty) (Some (TypeInfo.path ty))]"
  by (simp add: typeSection_def Let_def isHeaderAt_simps filter_empty_conv image_iff)

lemma headers3_sections:
  "filter (isHeaderAt 3) (concat (map (typeSection P ms dts) xs)) =
     map (\<lambda>ty. Header 3 (TypeInfo.name ty) (Some (TypeInfo.path ty))) xs"
  by (induction xs) (simp_all add: headers3_typeSection)

lemma headers3_types:
  "filter (isHeaderAt 3) (fst (addInterfaceTypes P t s)) =
     map (\<lambda>ty. Header 3 (TypeInfo.name ty) (Some (TypeInfo.path ty)))
       (sortBy (sortSelector TypeInfo.name) (arr s (dependentTypes t)))"
  unfolding addInterfaceTypes_events by (rule headers3_sections)

subsection \<open>The paragraph of implementers\<close>

lemma members_heading_notin: "Header 2 ''Members'' None \<notin> set (implementers ls)"
  by (auto simp: implementers_def)

lemma implementerEvents_page:
  "implementerEvents (fst (printInterface P t ads s)) = implementers (apiLinks P t ads)"
proof -
  have "takeWhile (\<lambda>e. e \<noteq> Header 2 ''Members'' None)
          (implementers (apiLinks P t ads) @ Header 2 ''Members'' None # rest)
        = implementers (apiLinks P t ads)" for rest
    using members_heading_notin[of "apiLinks P t ads"]
    by (subst takeWhile_append2) auto
  then show ?thesis
    by (simp add: implementerEvents_def printInterface_events)
qed

lemma apiLinks_by_name:
  "apiLinks P t ads =
     map (apiLink P)
       (filter (\<lambda>ad. InterfaceInfo.name t \<in> set (map InterfaceInfo.name (interfaceInfos ad))) ads)"
proof -
  have "list_ex (\<lambda>i. InterfaceInfo.name i = InterfaceInfo.name t) is
        \<longleftrightarrow> InterfaceInfo.name t \<in> set (map InterfaceInfo.name is)"
    for "is" :: "InterfaceInfo list"
    by (induction "is") auto
  then show ?thesis by (simp add: apiLinks_def)
qed

subsection \<open>Usage links\<close>

lemma usageLinks_by_id:
  "usageLinks P ms dts ty =
     map (usageLink P)
       (filter (\<lambda>e. TypeInfo.id' ty \<in> set (map TypeLink.id' (entryLinks e)))
          (map Inl ms @ map Inr dts))"
proof -
  have "list_ex (\<lambda>link. TypeLink.id' link = TypeInfo.id' ty) ls
        \<longleftrightarrow> TypeInfo.id' ty \<in> set (map TypeLink.id' ls)" for ls :: "TypeLink list"
    by (induction ls) auto
  then show ?thesis by (simp add: usageLinks_def)
qed

lemma refBy_typeSection:
  "filter isReferencedBy (typeSection P ms dts ty) =
     (if usageLinks P ms dts ty = [] then []
      else [Paragraph [''Referenced by: '' @ join '', '' (usageLinks P ms dts ty) @ ''.'']])"
  by (simp add: typeSection_def Let_def isReferencedBy_def filter_empty_conv image_iff)

subsection \<open>The display name\<close>

lemma suffix_marker: "suffix ''ApiRef'' (n @ ''ApiRef'')"
  by (rule suffixI[OF refl])

lemma displayName_append: "apiDisplayName (api\<lparr>ApiDoc.name := n @ ''ApiRef''\<rparr>) = n"
  using suffix_marker[of n] by (simp add: apiDisplayName_def Let_def)

lemma displayName_fixed:
  "apiDisplayName (api\<lparr>ApiDoc.name := n\<rparr>) = n \<longleftrightarrow> \<not> suffix ''ApiRef'' n"
proof (cases "suffix ''ApiRef'' n")
  case True
  then obtain m where m: "n = m @ ''ApiRef''" by (auto simp: suffix_def)
  have "apiDisplayName (api\<lparr>ApiDoc.name := n\<rparr>) = m"
    unfolding m by (rule displayName_append)
  then show ?thesis using True m by simp
next
  case False
  then show ?thesis by (simp add: apiDisplayName_def)
qed

lemma displayName_suffix:
  "suffix ''ApiRef'' (apiDisplayName (api\<lparr>ApiDoc.name := n\<rparr>))
     \<longleftrightarrow> suffix (''ApiRef'' @ ''ApiRef'') n"
proof (cases "suffix ''ApiRef'' n")
  case True
  then obtain m where m: "n = m @ ''ApiRef''" by (auto simp: suffix_def)
  have "apiDisplayName (api\<lparr>ApiDoc.name := n\<rparr>) = m"
    unfolding m by (rule displayName_append)
  then show ?thesis using m by (simp del: append.simps add: suffix_def)
next
  case False
  moreover have "\<not> suffix (''ApiRef'' @ ''ApiRef'') n"
    using False suffix_appendD by blast
  ultimately show ?thesis by (simp add: apiDisplayName_def)
qed

subsection \<open>The phrasing of the implemented types\<close>

lemma phrasing:
  "singularPhrasing (implementedTypes P api) \<longleftrightarrow> length (interfaceInfos api) \<le> 1"
  "pluralPhrasing (implementedTypes P api) \<longleftrightarrow> 1 < length (interfaceInfos api)"
  by (auto simp: singularPhrasing_def pluralPhrasing_def implementedTypes_def typeLinks_def Let_def)

section \<open>The claims\<close>

text \<open>
  C1 (amended). The implementer links of an interface page are the links of exactly the
  entries whose list of interfaces contains an interface with the name of the type, in the
  order of the input; they are what the page shows between its source paragraph and the
  heading of the members. The filter compares names, not identifiers. Where, among the
  interfaces of the entries, having the identifier of the type and having its name are the
  same thing, these are the entries whose interface list contains the identifier of the type.
\<close>

theorem implementer_links_by_name:
  "apiLinks P t ads =
     map (apiLink P)
       (filter (\<lambda>ad. InterfaceInfo.name t \<in> set (map InterfaceInfo.name (interfaceInfos ad))) ads)
   \<and> implementerEvents (fst (printInterface P t ads s)) = implementers (apiLinks P t ads)
   \<and> ((\<forall>ad \<in> set ads. \<forall>i \<in> set (interfaceInfos ad).
          (InterfaceInfo.id' i = InterfaceInfo.id' t) = (InterfaceInfo.name i = InterfaceInfo.name t))
        \<longrightarrow> apiLinks P t ads = map (apiLink P) (specImplementers t ads))"
proof -
  have "(\<forall>ad \<in> set ads. \<forall>i \<in> set (interfaceInfos ad).
          (InterfaceInfo.id' i = InterfaceInfo.id' t) = (InterfaceInfo.name i = InterfaceInfo.name t))
        \<Longrightarrow> filter (\<lambda>ad. InterfaceInfo.name t \<in> set (map InterfaceInfo.name (interfaceInfos ad))) ads
            = specImplementers t ads"
    unfolding specImplementers_def
    by (rule filter_cong) (auto simp: image_iff, metis+)
  then show ?thesis
    using apiLinks_by_name[of P t ads] implementerEvents_page[of P t ads s] by simp
qed

text \<open>
  Of the entries fooApi, zooApi and noTypeApi the first implements fooType, the second
  another interface of another name, the third none: the page of fooType links to fooApi
  alone.
\<close>

theorem implementer_links_by_name_witness:
  "specImplementers fooType [fooApi, zooApi, noTypeApi] = [fooApi]
   \<and> apiLinks samplePrinter fooType [fooApi, zooApi, noTypeApi] = [''[FooApiRef](./README.md#x-Foo)'']"
proof -
  have h: "\<forall>ad \<in> set [fooApi, zooApi, noTypeApi]. \<forall>i \<in> set (interfaceInfos ad).
      (InterfaceInfo.id' i = InterfaceInfo.id' fooType)
      = (InterfaceInfo.name i = InterfaceInfo.name fooType)"
    by (simp add: fooApi_def zooApi_def zooType_def noTypeApi_def fooType_def)
  have sp: "specImplementers fooType [fooApi, zooApi, noTypeApi] = [fooApi]"
    by (simp add: specImplementers_def fooApi_def zooApi_def zooType_def noTypeApi_def fooType_def)
  have ln: "apiLink samplePrinter fooApi = ''[FooApiRef](./README.md#x-Foo)''"
    by (simp add: apiLink_def apiDisplayName_def samplePrinter_def fooApi_def suffix_def Let_def)
  from implementer_links_by_name[of samplePrinter fooType "[fooApi, zooApi, noTypeApi]" emptyStore] h
  have "apiLinks samplePrinter fooType [fooApi, zooApi, noTypeApi]
          = map (apiLink samplePrinter) (specImplementers fooType [fooApi, zooApi, noTypeApi])"
    by blast
  then have "apiLinks samplePrinter fooType [fooApi, zooApi, noTypeApi] = [''[FooApiRef](./README.md#x-Foo)'']"
    by (simp add: sp ln)
  with sp show ?thesis by blast
qed

text \<open>
  As stated, with identifiers, the claim fails: otherFooApi implements otherFoo, which has
  the name of fooType and another identifier. No interface of otherFooApi has the identifier
  of fooType, and the page of fooType links to otherFooApi.
\<close>

theorem implementer_links_by_id_counterexample:
  "specImplementers fooType [otherFooApi] = []
   \<and> apiLinks samplePrinter fooType [otherFooApi] = [''[OtherFooApiRef](./README.md#y-OtherFoo)'']"
  by (simp add: apiLinks_def specImplementers_def fooType_def otherFooApi_def otherFoo_def
        apiLink_def apiDisplayName_def samplePrinter_def suffix_def Let_def)

text \<open>
  C2 (amended). The display name is the raw name without one trailing marker:
  displayName(name + marker) is name, for every name. A name without trailing marker is its
  own display name, so displayName(name + marker) = displayName(name) exactly when name does
  not itself end with the marker. The display name of a name ends with the marker exactly when
  the name ends with two markers, and deriving the display name a second time changes nothing
  exactly when the name does not end with two markers.
\<close>

theorem apiDisplayName_strips_once:
  "apiDisplayName (api\<lparr>ApiDoc.name := n @ ''ApiRef''\<rparr>) = n
   \<and> (apiDisplayName (api\<lparr>ApiDoc.name := n @ ''ApiRef''\<rparr>) = apiDisplayName (api\<lparr>ApiDoc.name := n\<rparr>)
        \<longleftrightarrow> \<not> suffix ''ApiRef'' n)
   \<and> (suffix ''ApiRef'' (apiDisplayName (api\<lparr>ApiDoc.name := n\<rparr>))
        \<longleftrightarrow> suffix (''ApiRef'' @ ''ApiRef'') n)
   \<and> (apiDisplayName (api\<lparr>ApiDoc.name := apiDisplayName (api\<lparr>ApiDoc.name := n\<rparr>)\<rparr>)
          = apiDisplayName (api\<lparr>ApiDoc.name := n\<rparr>)
        \<longleftrightarrow> \<not> suffix (''ApiRef'' @ ''ApiRef'') n)"
proof -
  have a: "apiDisplayName (api\<lparr>ApiDoc.name := n @ ''ApiRef''\<rparr>) = n"
    by (rule displayName_append)
  have b: "n = apiDisplayName (api\<lparr>ApiDoc.name := n\<rparr>) \<longleftrightarrow> \<not> suffix ''ApiRef'' n"
    using displayName_fixed[where api=api and n=n] by auto
  have c: "apiDisplayName (api\<lparr>ApiDoc.name := apiDisplayName (api\<lparr>ApiDoc.name := n\<rparr>)\<rparr>)
          = apiDisplayName (api\<lparr>ApiDoc.name := n\<rparr>)
        \<longleftrightarrow> \<not> suffix ''ApiRef'' (apiDisplayName (api\<lparr>ApiDoc.name := n\<rparr>))"
    by (rule displayName_fixed)
  show ?thesis unfolding a c displayName_suffix using b by simp
qed

text \<open>The name Foo: FooApiRef and Foo have the display name Foo, which is stable.\<close>

theorem apiDisplayName_strips_once_witness:
  "apiDisplayName (fooApi\<lparr>ApiDoc.name := ''FooApiRef''\<rparr>) = ''Foo''
   \<and> apiDisplayName (fooApi\<lparr>ApiDoc.name := ''Foo''\<rparr>) = ''Foo''
   \<and> \<not> suffix ''ApiRef'' ''Foo''
   \<and> \<not> suffix ''ApiRef'' (apiDisplayName (fooApi\<lparr>ApiDoc.name := ''Foo''\<rparr>))"
proof -
  have h: "\<not> suffix ''ApiRef'' ''Foo''" by (simp add: suffix_def)
  have h2: "\<not> suffix (''ApiRef'' @ ''ApiRef'') ''Foo''" by (simp add: suffix_def)
  show ?thesis using apiDisplayName_strips_once[where api=fooApi and n="''Foo''"] h h2 by auto
qed

text \<open>
  As stated the claim fails at the name FooApiRef: with one more marker its display name is
  FooApiRef, not Foo; that display name still ends with the marker, and deriving the display
  name once more changes it.
\<close>

theorem apiDisplayName_idempotent_counterexample:
  "apiDisplayName (fooApi\<lparr>ApiDoc.name := ''FooApiRef'' @ ''ApiRef''\<rparr>)
     \<noteq> apiDisplayName (fooApi\<lparr>ApiDoc.name := ''FooApiRef''\<rparr>)
   \<and> suffix ''ApiRef'' (apiDisplayName (fooApi\<lparr>ApiDoc.name := ''FooApiRef'' @ ''ApiRef''\<rparr>))
   \<and> apiDisplayName (fooApi\<lparr>ApiDoc.name :=
         apiDisplayName (fooApi\<lparr>ApiDoc.name := ''FooApiRef'' @ ''ApiRef''\<rparr>)\<rparr>)
     \<noteq> apiDisplayName (fooApi\<lparr>ApiDoc.name := ''FooApiRef'' @ ''ApiRef''\<rparr>)"
proof -
  have a: "apiDisplayName (fooApi\<lparr>ApiDoc.name := ''FooApiRef'' @ ''ApiRef''\<rparr>) = ''FooApiRef''"
    by (rule displayName_append)
  have b: "apiDisplayName (fooApi\<lparr>ApiDoc.name := ''Foo'' @ ''ApiRef''\<rparr>) = ''Foo''"
    by (rule displayName_append)
  have c: "suffix ''ApiRef'' (''Foo'' @ ''ApiRef'')" by (rule suffix_marker)
  show ?thesis using b c unfolding a by simp
qed

text \<open>
  C3 (amended). For every entry of the collection the index holds the paragraph of its
  implemented types; the paragraph uses the plural phrasing if and only if the entry
  implements more than one interface, and the singular phrasing otherwise, including when it
  implements zero interfaces.
\<close>

theorem implemented_types_plural_iff:
  "api \<in> set apiDocs \<Longrightarrow>
     Paragraph [implementedTypes P api] \<in> set (printApiIndex P apiDocs)
     \<and> (pluralPhrasing (implementedTypes P api) \<longleftrightarrow> 1 < length (interfaceInfos api))
     \<and> (singularPhrasing (implementedTypes P api) \<longleftrightarrow> length (interfaceInfos api) \<le> 1)"
  by (auto simp: phrasing printApiIndex_def apiSection_def)

theorem implemented_types_plural_iff_witness:
  "noTypeApi \<in> set [fooApi, zooApi, noTypeApi]
   \<and> Paragraph [''Implemented type: ''] \<in> set (printApiIndex samplePrinter [fooApi, zooApi, noTypeApi])
   \<and> singularPhrasing (implementedTypes samplePrinter noTypeApi)
   \<and> \<not> pluralPhrasing (implementedTypes samplePrinter noTypeApi)"
proof -
  have h: "noTypeApi \<in> set [fooApi, zooApi, noTypeApi]" by simp
  have v: "implementedTypes samplePrinter noTypeApi = ''Implemented type: ''"
    by (simp add: implementedTypes_def typeLinks_def noTypeApi_def)
  have n: "length (interfaceInfos noTypeApi) = 0" by (simp add: noTypeApi_def)
  show ?thesis
    using implemented_types_plural_iff[OF h, of samplePrinter] h
    unfolding n unfolding v by simp
qed

text \<open>
  As stated the claim fails for an entry that implements no interface: its paragraph is in
  the singular, and the entry does not implement exactly one interface.
\<close>

theorem implemented_types_zero_counterexample:
  "\<not> (singularPhrasing (implementedTypes samplePrinter noTypeApi)
       \<longleftrightarrow> length (interfaceInfos noTypeApi) = 1)"
  by (simp add: phrasing noTypeApi_def)

text \<open>
  C4. The implementer part of an interface page is decided by the number of implementer
  links alone. With exactly one link it is the single sentence with that link; with any other
  number it is the introductory sentence followed by one list item per link; with no link it
  is the introductory sentence and no item. The page is rendered in every case.
\<close>

theorem implementers_branches:
  fixes P t ads s
  defines "lnks \<equiv> apiLinks P t ads"
  defines "body \<equiv> implementerEvents (fst (printInterface P t ads s))"
  shows "(\<forall>l. lnks = [l] \<longrightarrow>
            body = [Paragraph [''The following Utility API implements this type: '' @ l]])
       \<and> (length lnks \<noteq> 1 \<longrightarrow>
            body = Paragraph [''The following Utility APIs implement this type:'']
                   # map (\<lambda>link. Text (''  - '' @ link)) lnks)
       \<and> (length lnks = 0 \<longrightarrow>
            body = [Paragraph [''The following Utility APIs implement this type:'']])"
  unfolding body_def implementerEvents_page lnks_def[symmetric]
  by (auto simp: implementers_def)

text \<open>Pages of fooType with one, two and no implementers.\<close>

theorem implementers_branches_witness:
  "implementerEvents (fst (printInterface samplePrinter fooType [fooApi] emptyStore))
     = [Paragraph [''The following Utility API implements this type: [FooApiRef](./README.md#x-Foo)'']]
   \<and> implementerEvents (fst (printInterface samplePrinter fooType [fooApi, otherFooApi] emptyStore))
     = [Paragraph [''The following Utility APIs implement this type:''],
        Text ''  - [FooApiRef](./README.md#x-Foo)'',
        Text ''  - [OtherFooApiRef](./README.md#y-OtherFoo)'']
   \<and> implementerEvents (fst (printInterface samplePrinter fooType [noTypeApi] emptyStore))
     = [Paragraph [''The following Utility APIs implement this type:'']]"
proof -
  have l1: "apiLink samplePrinter fooApi = ''[FooApiRef](./README.md#x-Foo)''"
    by (simp add: apiLink_def apiDisplayName_def samplePrinter_def fooApi_def suffix_def Let_def)
  have l2: "apiLink samplePrinter otherFooApi = ''[OtherFooApiRef](./README.md#y-OtherFoo)''"
    by (simp add: apiLink_def apiDisplayName_def samplePrinter_def otherFooApi_def suffix_def Let_def)
  have a1: "apiLinks samplePrinter fooType [fooApi] = [''[FooApiRef](./README.md#x-Foo)'']"
    unfolding l1[symmetric] by (simp add: apiLinks_def fooApi_def fooType_def)
  have a2: "apiLinks samplePrinter fooType [fooApi, otherFooApi]
              = [''[FooApiRef](./README.md#x-Foo)'', ''[OtherFooApiRef](./README.md#y-OtherFoo)'']"
    unfolding l1[symmetric] l2[symmetric]
    by (simp add: apiLinks_def fooApi_def otherFooApi_def otherFoo_def fooType_def)
  have a0: "apiLinks samplePrinter fooType [noTypeApi] = []"
    by (simp add: apiLinks_def noTypeApi_def)
  from implementers_branches[of samplePrinter fooType "[fooApi]" emptyStore] a1
  have b1: "implementerEvents (fst (printInterface samplePrinter fooType [fooApi] emptyStore))
     = [Paragraph [''The following Utility API implements this type: '' @ ''[FooApiRef](./README.md#x-Foo)'']]"
    by blast
  from implementers_branches[of samplePrinter fooType "[fooApi, otherFooApi]" emptyStore]
  have b2: "implementerEvents (fst (printInterface samplePrinter fooType [fooApi, otherFooApi] emptyStore))
     = Paragraph [''The following Utility APIs implement this type:'']
       # map (\<lambda>link. Text (''  - '' @ link))
           [''[FooApiRef](./README.md#x-Foo)'', ''[OtherFooApiRef](./README.md#y-OtherFoo)'']"
    unfolding a2 by simp
  from implementers_branches[of samplePrinter fooType "[noTypeApi]" emptyStore]
  have b0: "implementerEvents (fst (printInterface samplePrinter fooType [noTypeApi] emptyStore))
     = [Paragraph [''The following Utility APIs implement this type:'']]"
    unfolding a0 by simp
  show ?thesis unfolding b1 b2 b0 by simp
qed

text \<open>
  C5. Let the array of dependent types of an interface type be allocated. The types part of
  its page is the sequence of the sections of its dependent types, sorted, each computed from
  the members and the dependent types in their original order. In the section of a dependent
  type T the paragraphs that start with "Referenced by" are: none, when no member and no
  dependent type of the interface has a link with the identifier of T; otherwise the single
  paragraph that lists the links of exactly those members and dependent types, members first,
  each group in its original order.
\<close>

theorem referenced_by_links:
  fixes P t s ty
  defines "deps \<equiv> arr s (dependentTypes t)"
  defines "refs \<equiv> filter (\<lambda>e. TypeInfo.id' ty \<in> set (map TypeLink.id' (entryLinks e)))
                     (map Inl (members t) @ map Inr deps)"
  assumes "dependentTypes t < nxt s"
  shows "fst (addInterfaceTypes P t s) =
           concat (map (typeSection P (members t) deps) (sortBy (sortSelector TypeInfo.name) deps))
       \<and> filter isReferencedBy (typeSection P (members t) deps ty) =
           (if refs = [] then []
            else [Paragraph [''Referenced by: '' @ join '', '' (map (usageLink P) refs) @ ''.'']])"
  using assms(3)
  unfolding refBy_typeSection usageLinks_by_id refs_def deps_def addInterfaceTypes_events
  by simp

text \<open>
  In the sample interface, Mango is referenced by the member and Zebra by nothing.
\<close>

theorem referenced_by_links_witness:
  "dependentTypes zooType < nxt zooStore
   \<and> filter isReferencedBy
       (typeSection samplePrinter (members zooType) (arr zooStore (dependentTypes zooType))
          (sampleType 12 ''Mango'' [11]))
     = [Paragraph [''Referenced by: [feed](#feed-feed).'']]
   \<and> filter isReferencedBy
       (typeSection samplePrinter (members zooType) (arr zooStore (dependentTypes zooType))
          (sampleType 10 ''Zebra'' []))
     = []"
proof -
  have h: "dependentTypes zooType < nxt zooStore"
    by (simp add: zooType_def zooStore_def)
  have m: "filter (\<lambda>e. TypeInfo.id' (sampleType 12 ''Mango'' [11]) \<in> set (map TypeLink.id' (entryLinks e)))
             (map Inl (members zooType) @ map Inr (arr zooStore (dependentTypes zooType)))
           = [Inl zooMember]"
    by (simp add: zooType_def zooStore_def sampleType_def zooMember_def entryLinks_def)
  have z: "filter (\<lambda>e. TypeInfo.id' (sampleType 10 ''Zebra'' []) \<in> set (map TypeLink.id' (entryLinks e)))
             (map Inl (members zooType) @ map Inr (arr zooStore (dependentTypes zooType)))
           = []"
    by (simp add: zooType_def zooStore_def sampleType_def zooMember_def entryLinks_def)
  have u: "usageLink samplePrinter (Inl zooMember) = ''[feed](#feed-feed)''"
    by (simp add: usageLink_def entryName_def entryPath_def zooMember_def samplePrinter_def)
  show ?thesis
    using referenced_by_links[OF h, of samplePrinter "sampleType 12 ''Mango'' [11]"]
      referenced_by_links[OF h, of samplePrinter "sampleType 10 ''Zebra'' []"] h
    unfolding m z by (simp add: u)
qed

text \<open>
  C6. On the page of an interface type the dependent types are rendered in ascending order of
  their names, whatever their order in the input: the rendered sequence is sorted by name, it
  has the same elements as the input, and dependent types of one name keep their relative
  order. The headings of the types part are the names in that order. Dependent types named
  Zebra, Apple, Mango are rendered in the order Apple, Mango, Zebra. The order of names is the
  lexicographic order on character codes, in which Zebra comes before apple.
\<close>

theorem dependent_types_sorted_stable:
  fixes P t ads s
  defines "deps \<equiv> arr s (dependentTypes t)"
  defines "rendered \<equiv> codeTypes (fst (printInterface P t ads s))"
  shows "sorted (map TypeInfo.name rendered)
       \<and> mset rendered = mset deps
       \<and> filter (\<lambda>x. TypeInfo.name x = k) rendered = filter (\<lambda>x. TypeInfo.name x = k) deps
       \<and> filter (isHeaderAt 3) (fst (addInterfaceTypes P t s))
           = map (\<lambda>ty. Header 3 (TypeInfo.name ty) (Some (TypeInfo.path ty))) rendered
       \<and> map TypeInfo.name (codeTypes (fst (printInterface samplePrinter zooType [] zooStore)))
           = [''Apple'', ''Mango'', ''Zebra'']
       \<and> map TypeInfo.name
           (sortBy (sortSelector TypeInfo.name) [sampleType 1 ''apple'' [], sampleType 2 ''Zebra'' []])
           = [''Zebra'', ''apple'']"
proof -
  have r: "rendered = sort_key TypeInfo.name deps"
    unfolding rendered_def deps_def codeTypes_page sortBy_sortSelector ..
  have hd: "filter (isHeaderAt 3) (fst (addInterfaceTypes P t s))
           = map (\<lambda>ty. Header 3 (TypeInfo.name ty) (Some (TypeInfo.path ty))) rendered"
    unfolding rendered_def codeTypes_page by (rule headers3_types)
  have ex: "map TypeInfo.name (codeTypes (fst (printInterface samplePrinter zooType [] zooStore)))
           = [''Apple'', ''Mango'', ''Zebra'']"
    unfolding codeTypes_page
    by (simp add: zooType_def zooStore_def sampleType_def sortSelector_def)
  have cs: "map TypeInfo.name
           (sortBy (sortSelector TypeInfo.name) [sampleType 1 ''apple'' [], sampleType 2 ''Zebra'' []])
           = [''Zebra'', ''apple'']"
    by (simp add: sampleType_def sortSelector_def)
  show ?thesis using ex hd cs by (simp add: r sort_key_stable)
qed

text \<open>
  C7. The headings of level 3 of the index are, in the order of the input, one per entry:
  the display name of the entry, anchored by the identifier of the entry.
\<close>

theorem index_subheadings:
  "filter (isHeaderAt 3) (printApiIndex P apiDocs) =
     map (\<lambda>api. Header 3 (apiDisplayName api) (Some (ApiDoc.id' api))) apiDocs"
proof -
  have "filter (isHeaderAt 3) (concat (map (apiSection P) apiDocs)) =
     map (\<lambda>api. Header 3 (apiDisplayName api) (Some (ApiDoc.id' api))) apiDocs"
    by (induction apiDocs) (simp_all add: apiSection_def isHeaderAt_simps)
  then show ?thesis by (simp add: printApiIndex_def isHeaderAt_simps)
qed

text \<open>
  C8. Rendering an interface page leaves every array that was allocated before the call as it
  was, the array of dependent types of the interface among them: the sort works on a copy,
  which is allocated by the call. The index renderer calls no method that writes to an array.
\<close>

theorem printInterface_preserves_arrays:
  "a < nxt s \<Longrightarrow>
     arr (snd (printInterface P t ads s)) a = arr s a
     \<and> nxt s \<le> nxt (snd (printInterface P t ads s))"
  by (simp add: printInterface_store addInterfaceTypes_frame addInterfaceTypes_nxt)

text \<open>
  After the page of the sample interface is rendered its dependent types are still in the
  order Zebra, Apple, Mango, and the sorted copy lies at the next address.
\<close>

theorem printInterface_preserves_arrays_witness:
  "dependentTypes zooType < nxt zooStore
   \<and> map TypeInfo.name
       (arr (snd (printInterface samplePrinter zooType [] zooStore)) (dependentTypes zooType))
     = [''Zebra'', ''Apple'', ''Mango'']
   \<and> map TypeInfo.name
       (arr (snd (printInterface samplePrinter zooType [] zooStore)) (nxt zooStore))
     = [''Apple'', ''Mango'', ''Zebra'']"
proof -
  have h: "dependentTypes zooType < nxt zooStore"
    by (simp add: zooType_def zooStore_def)
  have o: "map TypeInfo.name (arr zooStore (dependentTypes zooType)) = [''Zebra'', ''Apple'', ''Mango'']"
    by (simp add: zooType_def zooStore_def sampleType_def)
  have ne: "arr zooStore (dependentTypes zooType) \<noteq> []"
    by (simp add: zooType_def zooStore_def)
  have c: "map TypeInfo.name
       (arr (snd (printInterface samplePrinter zooType [] zooStore)) (nxt zooStore))
     = [''Apple'', ''Mango'', ''Zebra'']"
    unfolding printInterface_store using ne
    by (simp add: addInterfaceTypes_copy)
       (simp add: zooType_def zooStore_def sampleType_def sortSelector_def)
  show ?thesis
    using printInterface_preserves_arrays[OF h, of samplePrinter zooType "[]"] h o c by simp
qed

text \<open>
  C9. The headings of level 2 of an interface page are the heading of the members, always,
  followed by the heading of the supporting types if and only if the interface has a
  dependent type.
\<close>

theorem section_headings:
  "filter (isHeaderAt 2) (fst (printInterface P t ads s)) =
     Header 2 ''Members'' None
     # (if arr s (dependentTypes t) = [] then [] else [Header 2 ''Supporting types'' None])"
  by (simp add: printInterface_events headers2_implementers headers2_members headers2_types
        isHeaderAt_simps)

text \<open>
  C10. In the single sentence and in the list items alike, the link to an implementer has the
  raw name of the entry as its label; its target is the link to the index followed by the
  header link made from the display name and the identifier of the entry.
\<close>

theorem implementer_link_label:
  fixes P t ads s
  defines "impls \<equiv>
     filter (\<lambda>ad. InterfaceInfo.name t \<in> set (map InterfaceInfo.name (interfaceInfos ad))) ads"
  defines "link \<equiv> \<lambda>ad. ''['' @ ApiDoc.name ad @ '']('' @ indexLink P
                          @ headerLink P (apiDisplayName ad) (ApiDoc.id' ad) @ '')''"
  defines "body \<equiv> implementerEvents (fst (printInterface P t ads s))"
  shows "(\<forall>ad. impls = [ad] \<longrightarrow>
            body = [Paragraph [''The following Utility API implements this type: '' @ link ad]])
       \<and> (length impls \<noteq> 1 \<longrightarrow>
            body = Paragraph [''The following Utility APIs implement this type:'']
                   # map (\<lambda>ad. Text (''  - '' @ link ad)) impls)"
proof -
  have l: "apiLink P = link" by (rule ext) (simp add: apiLink_def link_def Let_def)
  have b: "body = implementers (map link impls)"
    unfolding body_def implementerEvents_page apiLinks_by_name impls_def l ..
  show ?thesis unfolding b by (auto simp: implementers_def comp_def)
qed

text \<open>
  The entry FooApiRef, of display name Foo and identifier x, alone and together with
  OtherFooApiRef.
\<close>

theorem implementer_link_label_witness:
  "implementerEvents (fst (printInterface samplePrinter otherFoo [fooApi] emptyStore))
     = [Paragraph [''The following Utility API implements this type: [FooApiRef](./README.md#x-Foo)'']]
   \<and> implementerEvents (fst (printInterface samplePrinter otherFoo [otherFooApi, fooApi] emptyStore))
     = [Paragraph [''The following Utility APIs implement this type:''],
        Text ''  - [OtherFooApiRef](./README.md#y-OtherFoo)'',
        Text ''  - [FooApiRef](./README.md#x-Foo)'']"
proof -
  have d1: "apiDisplayName fooApi = ''Foo''"
    by (simp add: apiDisplayName_def fooApi_def suffix_def Let_def)
  have d2: "apiDisplayName otherFooApi = ''OtherFoo''"
    by (simp add: apiDisplayName_def otherFooApi_def suffix_def Let_def)
  have f1: "filter (\<lambda>ad. InterfaceInfo.name otherFoo \<in> set (map InterfaceInfo.name (interfaceInfos ad)))
              [fooApi] = [fooApi]"
    by (simp add: fooApi_def fooType_def otherFoo_def)
  have f2: "filter (\<lambda>ad. InterfaceInfo.name otherFoo \<in> set (map InterfaceInfo.name (interfaceInfos ad)))
              [otherFooApi, fooApi] = [otherFooApi, fooApi]"
    by (simp add: fooApi_def otherFooApi_def fooType_def otherFoo_def)
  from implementer_link_label[of otherFoo "[fooApi]" samplePrinter emptyStore]
  have b1: "implementerEvents (fst (printInterface samplePrinter otherFoo [fooApi] emptyStore))
     = [Paragraph [''The following Utility API implements this type: ''
          @ ''['' @ ApiDoc.name fooApi @ '']('' @ indexLink samplePrinter
          @ headerLink samplePrinter (apiDisplayName fooApi) (ApiDoc.id' fooApi) @ '')'']]"
    unfolding f1 by simp
  from implementer_link_label[of otherFoo "[otherFooApi, fooApi]" samplePrinter emptyStore]
  have b2: "implementerEvents (fst (printInterface samplePrinter otherFoo [otherFooApi, fooApi] emptyStore))
     = Paragraph [''The following Utility APIs implement this type:'']
       # map (\<lambda>ad. Text (''  - '' @ ''['' @ ApiDoc.name ad @ '']('' @ indexLink samplePrinter
                @ headerLink samplePrinter (apiDisplayName ad) (ApiDoc.id' ad) @ '')''))
           [otherFooApi, fooApi]"
    unfolding f2 by simp
  show ?thesis unfolding b1 b2
    by (simp add: d1 d2) (simp add: samplePrinter_def fooApi_def otherFooApi_def)
qed

end
